theory Spec2Isabelle
  imports Main
begin

section \<open>Python values used by the authentication and tenant-context core\<close>

text \<open>
  Exceptions that the modelled code raises or lets through. \<open>CustomAuthenticationFailed\<close>
  carries its message. \<open>UserDoesNotExist\<close> is what \<open>User.objects.get\<close> raises on a
  miss, \<open>TypeError\<close> what unpacking \<open>None\<close> into two names raises, \<open>AttributeError\<close>
  what \<open>delattr\<close> raises on an absent attribute.
\<close>

datatype exn =
    CustomAuthenticationFailed string
  | UserDoesNotExist
  | TenantDoesNotExist
  | TypeError
  | IndexError
  | AttributeError
  | ValueError
  | DatabaseError
  | LibraryError string

text \<open>\<open>str.startswith\<close> and \<open>str.split(' ')\<close>.\<close>

definition startswith :: "string \<Rightarrow> string \<Rightarrow> bool" where
  "startswith s p = (take (length p) s = p)"

fun split_space :: "string \<Rightarrow> string list" where
  "split_space [] = [[]]"
| "split_space (c # cs) =
     (if c = CHR '' '' then [] # split_space cs
      else (case split_space cs of
              [] \<Rightarrow> [[c]]
            | w # ws \<Rightarrow> (c # w) # ws))"

section \<open>Tenant context: \<open>core/middleware.py\<close>, lines 12 to 35\<close>

text \<open>
  \<open>_thread_locals = threading.local()\<close> is an object whose attributes are kept per
  thread. The view one thread has of it is a namespace: a finite map from attribute names
  to values. The value stored under \<open>tenant\<close> is whatever \<open>set_current_tenant\<close> was
  given, a tenant or Python's \<open>None\<close>, so a stored value is an option.
\<close>

type_synonym 't namespace = "string \<rightharpoonup> 't option"

definition hasattr :: "'t namespace \<Rightarrow> string \<Rightarrow> bool" where
  "hasattr ns a = (ns a \<noteq> None)"

definition getattr_default :: "'t namespace \<Rightarrow> string \<Rightarrow> 't option \<Rightarrow> 't option" where
  "getattr_default ns a d = (case ns a of None \<Rightarrow> d | Some v \<Rightarrow> v)"

definition setattr :: "'t namespace \<Rightarrow> string \<Rightarrow> 't option \<Rightarrow> 't namespace" where
  "setattr ns a v = ns(a \<mapsto> v)"

definition delattr :: "'t namespace \<Rightarrow> string \<Rightarrow> exn + 't namespace" where
  "delattr ns a = (case ns a of None \<Rightarrow> Inl AttributeError | Some _ \<Rightarrow> Inr (ns(a := None)))"

definition get_current_tenant :: "'t namespace \<Rightarrow> 't option" where
  "get_current_tenant ns = getattr_default ns ''tenant'' None"

definition set_current_tenant :: "'t option \<Rightarrow> 't namespace \<Rightarrow> 't namespace" where
  "set_current_tenant tenant ns = setattr ns ''tenant'' tenant"

definition clear_current_tenant :: "'t namespace \<Rightarrow> exn + 't namespace" where
  "clear_current_tenant ns =
     (if hasattr ns ''tenant'' then delattr ns ''tenant'' else Inr ns)"

section \<open>Persistent entities: \<open>tenants/models.py\<close>, \<open>accounts/models.py\<close>\<close>

text \<open>
  A model instance is a record of its columns; \<open>pk\<close> is the primary key \<open>id\<close>,
  \<open>None\<close> on an instance that was never saved. Nullable columns are options, timestamps
  are seconds, the JSON column \<open>settings\<close> is its text.
\<close>

record tenant =
  pk :: "int option"
  created_at :: int
  updated_at :: int
  name :: string
  slug :: string
  is_active :: bool
  contact_email :: "string option"
  contact_phone :: "string option"
  address_line1 :: "string option"
  address_line2 :: "string option"
  city :: "string option"
  state :: "string option"
  country :: "string option"
  postal_code :: "string option"
  settings :: string

record user =
  pk :: "int option"
  password :: string
  last_login :: "int option"
  is_superuser :: bool
  created_at :: int
  updated_at :: int
  tenant_id :: "int option"
  email :: string
  first_name :: string
  last_name :: string
  phone_number :: "string option"
  address_line1 :: string
  address_line2 :: "string option"
  city :: string
  state :: string
  country :: string
  postal_code :: string
  role :: string
  is_active :: bool
  is_staff :: bool
  last_login_ip :: "string option"

text \<open>
  The two tables, keyed by primary key. \<open>User.objects\<close> is the \<open>UserManager\<close> of
  \<open>accounts/managers/usermanager.py\<close>; it is taken to hand out the whole table, as a
  manager does unless it overrides \<open>get_queryset\<close>.
\<close>

record database =
  tenants :: "int \<rightharpoonup> tenant"
  users :: "int \<rightharpoonup> user"

text \<open>
  \<open>self.save(update_fields=['is_active'])\<close> on a tenant: an \<open>UPDATE\<close> of the one
  column on the row whose key is \<open>self.pk\<close>. Django raises \<open>ValueError\<close> when the
  instance has no primary key and \<open>DatabaseError\<close> when the update touches no row.
\<close>

definition save_is_active :: "tenant \<Rightarrow> database \<Rightarrow> exn + database" where
  "save_is_active self db =
     (case tenant.pk self of
        None \<Rightarrow> Inl ValueError
      | Some i \<Rightarrow>
          (case tenants db i of
             None \<Rightarrow> Inl DatabaseError
           | Some row \<Rightarrow>
               Inr (db\<lparr>tenants := (tenants db)(i \<mapsto> row\<lparr>tenant.is_active := tenant.is_active self\<rparr>)\<rparr>)))"

text \<open>
  \<open>self.users.update(is_active=v)\<close>: \<open>users\<close> is the reverse side of the foreign key
  \<open>User.tenant\<close>, so this is an \<open>UPDATE\<close> of the one column on every user row whose
  \<open>tenant_id\<close> is \<open>self.pk\<close>. The related manager of an instance without a primary
  key raises \<open>ValueError\<close>.
\<close>

definition users_update_is_active :: "tenant \<Rightarrow> bool \<Rightarrow> database \<Rightarrow> exn + database" where
  "users_update_is_active self v db =
     (case tenant.pk self of
        None \<Rightarrow> Inl ValueError
      | Some i \<Rightarrow>
          Inr (db\<lparr>users := (\<lambda>k. case users db k of
                                   None \<Rightarrow> None
                                 | Some u \<Rightarrow>
                                     if tenant_id u = Some i
                                     then Some (u\<lparr>user.is_active := v\<rparr>)
                                     else Some u)\<rparr>))"

text \<open>
  \<open>Tenant.deactivate\<close> and \<open>Tenant.activate\<close>. Both return the instance as they
  leave it and either the exception raised or the database after the call.
\<close>

definition deactivate :: "tenant \<Rightarrow> database \<Rightarrow> tenant \<times> (exn + database)" where
  "deactivate self db =
     (let self1 = self\<lparr>tenant.is_active := False\<rparr> in
      case save_is_active self1 db of
        Inl e \<Rightarrow> (self1, Inl e)
      | Inr db1 \<Rightarrow> (self1, users_update_is_active self1 False db1))"

definition activate :: "tenant \<Rightarrow> database \<Rightarrow> tenant \<times> (exn + database)" where
  "activate self db =
     (let self1 = self\<lparr>tenant.is_active := True\<rparr> in
      (self1, save_is_active self1 db))"

section \<open>Request authentication: \<open>core/jwt_auth.py\<close>, \<open>core/auth.py\<close>\<close>

text \<open>
  \<open>UntypedToken\<close> comes from the JWT library. It either returns a token object or
  raises; the first four exceptions are the ones \<open>token_validation\<close> names in its
  \<open>except\<close> clause, the last stands for any other. The code reads two claims of a token
  object, \<open>user_id\<close> and \<open>role\<close>, each absent or present.
\<close>

datatype token_exc =
    InvalidToken
  | TokenError
  | ExpiredSignatureError
  | InvalidTokenError
  | OtherTokenFault string

record payload =
  user_id :: "int option"
  role :: "string option"

text \<open>\<open>AuthenticatedUser\<close> of \<open>core/auth.py\<close>; \<open>ident\<close> is its attribute \<open>id\<close>.\<close>

record authenticated_user =
  ident :: int
  role :: "string option"
  pk :: int
  is_authenticated :: bool
  tenant :: "tenant option"
  is_staff :: bool

text \<open>
  The request: its path, its two header maps, and the attributes the code attaches
  (\<open>user_id\<close>, \<open>role\<close>, \<open>tenant\<close>), \<open>None\<close> while not attached.
\<close>

record request =
  path :: string
  headers :: "string \<rightharpoonup> string"
  META :: "string \<rightharpoonup> string"
  user_id :: "int option"
  role :: "string option"
  tenant :: "tenant option"

text \<open>
  What the code is given from outside these files: the library's \<open>UntypedToken\<close>, the
  Python truth value of the object it returns, the list \<open>PUBLIC_URL\<close> of
  \<open>core/public_url.py\<close>, and the database.
\<close>

record env =
  UntypedToken :: "string \<Rightarrow> token_exc + payload"
  truthy :: "payload \<Rightarrow> bool"
  PUBLIC_URL :: "string list"
  DB :: database

text \<open>The truth value of a header value: \<open>None\<close> and the empty string are false.\<close>

definition falsy :: "string option \<Rightarrow> bool" where
  "falsy h = (case h of None \<Rightarrow> True | Some v \<Rightarrow> v = [])"

definition get_user :: "env \<Rightarrow> int \<Rightarrow> exn + user" where
  "get_user e uid = (case users (DB e) uid of None \<Rightarrow> Inl UserDoesNotExist | Some u \<Rightarrow> Inr u)"

text \<open>
  \<open>user.tenant\<close> follows the foreign key: \<open>None\<close> when the column is null, the row
  otherwise, and \<open>Tenant.DoesNotExist\<close> if the row is not there.
\<close>

definition user_tenant :: "env \<Rightarrow> user \<Rightarrow> exn + tenant option" where
  "user_tenant e u =
     (case tenant_id u of
        None \<Rightarrow> Inr None
      | Some i \<Rightarrow> (case tenants (DB e) i of None \<Rightarrow> Inl TenantDoesNotExist | Some t \<Rightarrow> Inr (Some t)))"

definition AuthenticatedUser :: "env \<Rightarrow> int \<Rightarrow> string option \<Rightarrow> user \<Rightarrow> exn + authenticated_user" where
  "AuthenticatedUser e uid r u =
     (case user_tenant e u of
        Inl x \<Rightarrow> Inl x
      | Inr t \<Rightarrow>
          Inr \<lparr>ident = uid, authenticated_user.role = r, authenticated_user.pk = uid,
               is_authenticated = True, authenticated_user.tenant = t,
               authenticated_user.is_staff = user.is_staff u\<rparr>)"

text \<open>
  \<open>token_validation\<close>. The second component is the list of tokens handed to
  \<open>UntypedToken\<close> so far, one entry per invocation.
\<close>

definition caught :: "token_exc \<Rightarrow> bool" where
  "caught x = (case x of OtherTokenFault _ \<Rightarrow> False | _ \<Rightarrow> True)"

definition token_validation :: "env \<Rightarrow> string \<Rightarrow> string list \<Rightarrow> (exn + payload) \<times> string list" where
  "token_validation e token calls =
     (case UntypedToken e token of
        Inr p \<Rightarrow> (Inr p, calls @ [token])
      | Inl x \<Rightarrow>
          (if caught x then (Inl (CustomAuthenticationFailed ''Token expired or Invalid''), calls @ [token])
           else (Inl (LibraryError (case x of OtherTokenFault m \<Rightarrow> m | _ \<Rightarrow> [])), calls @ [token])))"

text \<open>
  Lines 92 to 96 of \<open>core/jwt_auth.py\<close>: the header the strategy goes on with is
  \<open>request.headers.get("Authorization")\<close>, or, when that is false,
  \<open>request.META.get("HTTP_AUTHORIZATION")\<close>.
\<close>

definition authorization_header :: "request \<Rightarrow> string option" where
  "authorization_header req =
     (let auth_header = headers req ''Authorization''
      in if falsy auth_header then META req ''HTTP_AUTHORIZATION'' else auth_header)"

text \<open>
  \<open>JwtAuthenticationStrategy.authenticate\<close>. It returns the pair \<open>(user, token)\<close> or
  the exception raised, the request with the attributes attached so far, and the
  validator invocations. The two attribute assignments inside \<open>try\<close> are on a plain
  object and do not raise, so the handler of that \<open>try\<close> has no branch here;
  \<open>get_user\<close> is called after it, outside. The user of the pair is an option only
  because the middleware compares it with \<open>None\<close>.
\<close>

definition JwtAuthenticationStrategy_authenticate ::
  "env \<Rightarrow> request \<Rightarrow> string list
     \<Rightarrow> (exn + (authenticated_user option \<times> string)) \<times> request \<times> string list" where
  "JwtAuthenticationStrategy_authenticate e req calls =
     (case authorization_header req of
           None \<Rightarrow> (Inl (CustomAuthenticationFailed ''Authorization Details is missing or invalid''), req, calls)
         | Some h \<Rightarrow>
             if h = [] \<or> \<not> startswith h ''Bearer ''
             then (Inl (CustomAuthenticationFailed ''Authorization Details is missing or invalid''), req, calls)
             else
               (case split_space h of
                  _ # token # _ \<Rightarrow>
                    (case token_validation e token calls of
                       (Inl x, calls1) \<Rightarrow> (Inl x, req, calls1)
                     | (Inr p, calls1) \<Rightarrow>
                         if \<not> truthy e p
                         then (Inl (CustomAuthenticationFailed ''Token expired or Invalid''), req, calls1)
                         else
                           (case payload.user_id p of
                              None \<Rightarrow> (Inl (CustomAuthenticationFailed ''Token expired or Invalid''), req, calls1)
                            | Some uid \<Rightarrow>
                                (let req1 = req\<lparr>request.user_id := Some uid,
                                                request.role := payload.role p\<rparr>
                                 in case get_user e uid of
                                      Inl x \<Rightarrow> (Inl x, req1, calls1)
                                    | Inr current_user \<Rightarrow>
                                        (case AuthenticatedUser e uid (payload.role p) current_user of
                                           Inl x \<Rightarrow> (Inl x, req1, calls1)
                                         | Inr u \<Rightarrow> (Inr (Some u, token), req1, calls1)))))
                | _ \<Rightarrow> (Inl IndexError, req, calls)))"

text \<open>
  \<open>AuthenticationService.authenticate\<close>: \<open>None\<close> on a public path, otherwise what the
  strategy returns; an exception of the strategy is raised again as it is.
\<close>

definition AuthenticationService_authenticate ::
  "env \<Rightarrow> request \<Rightarrow> string list
     \<Rightarrow> (exn + (authenticated_user option \<times> string) option) \<times> request \<times> string list" where
  "AuthenticationService_authenticate e req calls =
     (if list_ex (startswith (path req)) (PUBLIC_URL e) then (Inr None, req, calls)
      else (case JwtAuthenticationStrategy_authenticate e req calls of
              (Inl x, req1, calls1) \<Rightarrow> (Inl x, req1, calls1)
            | (Inr ut, req1, calls1) \<Rightarrow> (Inr (Some ut), req1, calls1)))"

section \<open>Tenant middleware: \<open>core/middleware.py\<close>, lines 38 to 128\<close>

text \<open>
  A response is the JSON body and status the middleware builds, or whatever the
  downstream handler produced.
\<close>

datatype response =
    JsonResponse "(string \<times> string) list" nat
  | Downstream nat string

definition HTTP_403_FORBIDDEN :: nat where
  "HTTP_403_FORBIDDEN = 403"

text \<open>
  What one thread's run of the middleware reads and writes: its view of
  \<open>_thread_locals\<close>, the validator invocations made so far, and how often the
  downstream handler was called.
\<close>

record mw_state =
  thread_locals :: "tenant namespace"
  validator_calls :: "string list"
  handler_calls :: nat

definition EXCLUDED_PATHS :: "string list" where
  "EXCLUDED_PATHS =
     [''/admin/'',
      ''/api/v1/auth/register/'',
      ''/api/v1/auth/login/'',
      ''/api/v1/auth/refresh/'',
      ''/api/v1/tenants/register/'',
      ''/api/v1/tenants/create-tenant/'',
      ''/swagger/'',
      ''/redoc/'',
      ''/api/schema/'']"

text \<open>
  \<open>TenantMiddleware.process_request\<close>: the response it returns (\<open>None\<close> to let the
  request through) or the exception that leaves it, the request, and the state.
  \<open>user, token = ...\<close> raises \<open>TypeError\<close> when the service returned \<open>None\<close>. An
  \<open>AuthenticatedUser\<close> always has the attribute \<open>tenant\<close>, and a tenant instance is
  true, so the second test is \<open>user.tenant is None\<close>. The \<open>print\<close> is left out.
\<close>

definition process_request ::
  "env \<Rightarrow> request \<Rightarrow> mw_state \<Rightarrow> (exn + response option) \<times> request \<times> mw_state" where
  "process_request e req st =
     (case clear_current_tenant (thread_locals st) of
        Inl x \<Rightarrow> (Inl x, req, st)
      | Inr ns \<Rightarrow>
          (let st1 = st\<lparr>thread_locals := ns\<rparr> in
           if list_ex (startswith (path req)) EXCLUDED_PATHS then (Inr None, req, st1)
           else
             (case AuthenticationService_authenticate e req (validator_calls st1) of
                (Inl x, req1, calls1) \<Rightarrow> (Inl x, req1, st1\<lparr>validator_calls := calls1\<rparr>)
              | (Inr None, req1, calls1) \<Rightarrow> (Inl TypeError, req1, st1\<lparr>validator_calls := calls1\<rparr>)
              | (Inr (Some (user, token)), req1, calls1) \<Rightarrow>
                  (let st2 = st1\<lparr>validator_calls := calls1\<rparr> in
                   case user of
                     None \<Rightarrow>
                       (Inr (Some (JsonResponse
                          [(''error'', ''Credential Missing''),
                           (''detail'', ''unable to authenticate your account'')]
                          HTTP_403_FORBIDDEN)), req1, st2)
                   | Some u \<Rightarrow>
                       (case authenticated_user.tenant u of
                          None \<Rightarrow>
                            (Inr (Some (JsonResponse
                               [(''error'', ''No tenant associated with user''),
                                (''detail'', ''Your account is not associated with any organization.'')]
                               HTTP_403_FORBIDDEN)), req1, st2)
                        | Some t \<Rightarrow>
                            if \<not> tenant.is_active t
                            then (Inr (Some (JsonResponse
                               [(''error'', ''Tenant inactive''),
                                (''detail'', ''Your organization account has been deactivated.'')]
                               HTTP_403_FORBIDDEN)), req1, st2)
                            else (Inr None, req1\<lparr>request.tenant := Some t\<rparr>,
                                  st2\<lparr>thread_locals := set_current_tenant (Some t) ns\<rparr>))))))"

definition process_response ::
  "request \<Rightarrow> response \<Rightarrow> mw_state \<Rightarrow> (exn + response) \<times> mw_state" where
  "process_response req resp st =
     (case clear_current_tenant (thread_locals st) of
        Inl x \<Rightarrow> (Inl x, st)
      | Inr ns \<Rightarrow> (Inr resp, st\<lparr>thread_locals := ns\<rparr>))"

definition process_exception ::
  "request \<Rightarrow> exn \<Rightarrow> mw_state \<Rightarrow> (exn + response option) \<times> mw_state" where
  "process_exception req exc st =
     (case clear_current_tenant (thread_locals st) of
        Inl x \<Rightarrow> (Inl x, st)
      | Inr ns \<Rightarrow> (Inr None, st\<lparr>thread_locals := ns\<rparr>))"

text \<open>
  The class inherits \<open>__call__\<close> from Django's \<open>MiddlewareMixin\<close>:
  \<^verbatim>\<open>response = self.process_request(request)\<close>,
  \<^verbatim>\<open>response = response or self.get_response(request)\<close>,
  \<^verbatim>\<open>response = self.process_response(request, response)\<close>.
  \<open>get_response\<close> is everything downstream: it may read and write the thread's
  context; an exception of the view reaches \<open>process_exception\<close> inside it and is
  turned into a response before it returns.
\<close>

definition MiddlewareMixin_call ::
  "env \<Rightarrow> (request \<Rightarrow> tenant namespace \<Rightarrow> response \<times> tenant namespace)
     \<Rightarrow> request \<Rightarrow> mw_state \<Rightarrow> (exn + response) \<times> mw_state" where
  "MiddlewareMixin_call e get_response req st =
     (case process_request e req st of
        (Inl x, req1, st1) \<Rightarrow> (Inl x, st1)
      | (Inr (Some resp), req1, st1) \<Rightarrow> process_response req1 resp st1
      | (Inr None, req1, st1) \<Rightarrow>
          (case get_response req1 (thread_locals st1) of
             (resp, ns) \<Rightarrow>
               process_response req1 resp
                 (st1\<lparr>thread_locals := ns, handler_calls := Suc (handler_calls st1)\<rparr>)))"

section \<open>Threads\<close>

text \<open>
  \<open>threading.local\<close> keeps one namespace per thread, so the whole object is a map
  from thread to namespace, and code running on thread \<open>t\<close> reads and writes the
  namespace of \<open>t\<close>. What a thread does with the context while it serves requests is
  a sequence of these steps: the middleware's \<open>process_request\<close> on a request, a call
  of \<open>get_current_tenant\<close> by downstream code, \<open>process_response\<close>, and
  \<open>process_exception\<close>. A schedule is any sequence of (thread, step); running it
  yields, in order, what each call of \<open>get_current_tenant\<close> returned and to which
  thread.
\<close>

datatype action =
    Enter request
  | Read
  | Leave request response
  | Fault request exn

definition is_Enter :: "action \<Rightarrow> bool" where
  "is_Enter a = (case a of Enter _ \<Rightarrow> True | _ \<Rightarrow> False)"

definition on_namespace :: "tenant namespace \<Rightarrow> mw_state" where
  "on_namespace ns = \<lparr>thread_locals = ns, validator_calls = [], handler_calls = 0\<rparr>"

definition run_hook :: "env \<Rightarrow> action \<Rightarrow> tenant namespace \<Rightarrow> tenant namespace" where
  "run_hook e a ns =
     (case a of
        Enter req \<Rightarrow> thread_locals (snd (snd (process_request e req (on_namespace ns))))
      | Read \<Rightarrow> ns
      | Leave req resp \<Rightarrow> thread_locals (snd (process_response req resp (on_namespace ns)))
      | Fault req exc \<Rightarrow> thread_locals (snd (process_exception req exc (on_namespace ns))))"

fun schedule ::
  "env \<Rightarrow> (nat \<times> action) list \<Rightarrow> (nat \<Rightarrow> tenant namespace) \<Rightarrow> (nat \<times> tenant option) list" where
  "schedule e [] store = []"
| "schedule e ((t, a) # rest) store =
     (case a of
        Read \<Rightarrow> (t, get_current_tenant (store t)) # schedule e rest store
      | _ \<Rightarrow> schedule e rest (store(t := run_hook e a (store t))))"

text \<open>The steps of one thread in a schedule, and one thread running alone.\<close>

definition steps_of :: "nat \<Rightarrow> (nat \<times> action) list \<Rightarrow> action list" where
  "steps_of t sched = map snd (filter (\<lambda>p. fst p = t) sched)"

fun alone :: "env \<Rightarrow> action list \<Rightarrow> tenant namespace \<Rightarrow> tenant option list" where
  "alone e [] ns = []"
| "alone e (a # rest) ns =
     (case a of
        Read \<Rightarrow> get_current_tenant ns # alone e rest ns
      | _ \<Rightarrow> alone e rest (run_hook e a ns))"

section \<open>Sample data\<close>

text \<open>
  Two laboratories and three users, used where a statement is evaluated on concrete
  data: Ada and Bob belong to the first laboratory, Cy to the second.
\<close>

definition lab_one :: tenant where
  "lab_one = \<lparr>tenant.pk = Some 1, tenant.created_at = 0, tenant.updated_at = 0,
     name = ''Lab One'', slug = ''lab-one'', tenant.is_active = True,
     contact_email = None, contact_phone = None, tenant.address_line1 = None,
     tenant.address_line2 = None, tenant.city = None, tenant.state = None,
     tenant.country = None, tenant.postal_code = None, settings = ''{}''\<rparr>"

definition lab_two :: tenant where
  "lab_two = lab_one\<lparr>tenant.pk := Some 2, name := ''Lab Two'', slug := ''lab-two''\<rparr>"

definition ada :: user where
  "ada = \<lparr>user.pk = Some 42, password = ''x'', last_login = None, is_superuser = False,
     user.created_at = 0, user.updated_at = 0, tenant_id = Some 1,
     email = ''ada@lab-one.example'', first_name = ''Ada'', last_name = ''A'',
     phone_number = None, user.address_line1 = ''1 Main St'', user.address_line2 = None,
     user.city = ''Pune'', user.state = ''MH'', user.country = ''IN'',
     user.postal_code = ''411001'', user.role = ''tenant_user'', user.is_active = True,
     is_staff = False, last_login_ip = None\<rparr>"

definition bob :: user where
  "bob = ada\<lparr>user.pk := Some 43, email := ''bob@lab-one.example'', first_name := ''Bob'',
     user.role := ''tenant_admin''\<rparr>"

definition cy :: user where
  "cy = ada\<lparr>user.pk := Some 44, email := ''cy@lab-two.example'', first_name := ''Cy'',
     tenant_id := Some 2\<rparr>"

definition sample_db :: database where
  "sample_db = \<lparr>tenants = [1 \<mapsto> lab_one, 2 \<mapsto> lab_two],
                users = [42 \<mapsto> ada, 43 \<mapsto> bob, 44 \<mapsto> cy]\<rparr>"

text \<open>
  A validator that knows five tokens: Ada's, Cy's, one issued to user 99 who has since
  been deleted, one without the \<open>user_id\<close> claim, and an expired one. Everything else
  is malformed.
\<close>

definition sample_validator :: "string \<Rightarrow> token_exc + payload" where
  "sample_validator tok =
     (if tok = ''tok-ada'' then Inr \<lparr>payload.user_id = Some 42, payload.role = Some ''tenant_user''\<rparr>
      else if tok = ''tok-cy'' then Inr \<lparr>payload.user_id = Some 44, payload.role = Some ''tenant_user''\<rparr>
      else if tok = ''tok-gone'' then Inr \<lparr>payload.user_id = Some 99, payload.role = Some ''tenant_user''\<rparr>
      else if tok = ''tok-anon'' then Inr \<lparr>payload.user_id = None, payload.role = Some ''tenant_user''\<rparr>
      else if tok = ''tok-old'' then Inl ExpiredSignatureError
      else Inl TokenError)"

definition sample_env :: env where
  "sample_env = \<lparr>UntypedToken = sample_validator, truthy = (\<lambda>p. True),
                 PUBLIC_URL = [''/api/v1/auth/login/''], DB = sample_db\<rparr>"

text \<open>The same, after the second laboratory was switched off.\<close>

definition sample_env_off :: env where
  "sample_env_off =
     sample_env\<lparr>DB := sample_db\<lparr>tenants := (tenants sample_db)(2 \<mapsto> lab_two\<lparr>tenant.is_active := False\<rparr>)\<rparr>\<rparr>"

definition plain_request :: "string \<Rightarrow> request" where
  "plain_request p = \<lparr>path = p, headers = Map.empty, META = Map.empty,
                       request.user_id = None, request.role = None, request.tenant = None\<rparr>"

definition bearer_request :: "string \<Rightarrow> string \<Rightarrow> request" where
  "bearer_request p tok = (plain_request p)\<lparr>headers := [''Authorization'' \<mapsto> ''Bearer '' @ tok]\<rparr>"

definition idle :: mw_state where
  "idle = on_namespace Map.empty"

text \<open>
  A thread whose context still holds the second laboratory, two requests to a protected
  path, and a schedule in which thread 1 serves Ada's request while thread 2 serves Cy's.
\<close>

definition stale :: mw_state where
  "stale = on_namespace [''tenant'' \<mapsto> Some lab_two]"

definition ada_request :: request where
  "ada_request = bearer_request ''/api/v1/patients/'' ''tok-ada''"

definition cy_request :: request where
  "cy_request = bearer_request ''/api/v1/patients/'' ''tok-cy''"

definition sample_schedule :: "(nat \<times> action) list" where
  "sample_schedule =
     [(1, Enter ada_request), (2, Enter cy_request), (1, Read), (2, Read),
      (1, Leave ada_request (Downstream 200 ''ok'')), (2, Read), (1, Read),
      (2, Fault cy_request ValueError), (2, Read)]"

definition sample_store :: "nat \<Rightarrow> tenant namespace" where
  "sample_store = (\<lambda>t. Map.empty)(1 := [''tenant'' \<mapsto> Some lab_two])"

section \<open>Properties of the tenant context\<close>

lemma clear_current_tenant_eq:
  "clear_current_tenant ns = Inr (ns(''tenant'' := None))"
proof (cases "ns ''tenant''")
  case None
  then have "ns(''tenant'' := None) = ns" by (simp add: fun_upd_idem)
  with None show ?thesis by (simp add: clear_current_tenant_def hasattr_def)
next
  case (Some v)
  then show ?thesis by (simp add: clear_current_tenant_def hasattr_def delattr_def)
qed

lemma get_after_clear:
  "clear_current_tenant ns = Inr ns' \<Longrightarrow> get_current_tenant ns' = None"
  by (auto simp: clear_current_tenant_eq get_current_tenant_def getattr_default_def)

lemma get_cleared: "get_current_tenant (ns(''tenant'' := None)) = None"
  by (simp add: get_current_tenant_def getattr_default_def)

lemma get_published: "get_current_tenant (ns(''tenant'' \<mapsto> v)) = v"
  by (simp add: get_current_tenant_def getattr_default_def)

text \<open>
  C8. Clearing the tenant context is idempotent. On every context \<open>ns\<close> the first clear
  returns normally with a context \<open>ns1\<close>, the second clear returns normally too and
  returns \<open>ns1\<close> itself, the context read after either is empty, and a clear on a context
  that has no tenant attribute returns that context unchanged.
\<close>

theorem clear_current_tenant_idempotent:
  "\<exists>ns1. clear_current_tenant ns = Inr ns1
        \<and> clear_current_tenant ns1 = Inr ns1
        \<and> get_current_tenant ns1 = None
        \<and> (\<not> hasattr ns ''tenant'' \<longrightarrow> ns1 = ns)"
proof -
  let ?ns1 = "ns(''tenant'' := None)"
  have a: "clear_current_tenant ns = Inr ?ns1" by (rule clear_current_tenant_eq)
  have b: "clear_current_tenant ?ns1 = Inr ?ns1"
    by (simp add: clear_current_tenant_def hasattr_def)
  have c: "get_current_tenant ?ns1 = None" using a by (rule get_after_clear)
  have d: "\<not> hasattr ns ''tenant'' \<longrightarrow> ?ns1 = ns"
    by (simp add: hasattr_def fun_upd_idem)
  from a b c d show ?thesis by blast
qed

theorem clear_current_tenant_idempotent_witness:
  "\<not> hasattr (Map.empty :: nat namespace) ''tenant''
   \<and> clear_current_tenant (Map.empty :: nat namespace) = Inr Map.empty
   \<and> (\<exists>ns1. clear_current_tenant (set_current_tenant (Some (7::nat)) Map.empty) = Inr ns1
          \<and> clear_current_tenant ns1 = Inr ns1 \<and> get_current_tenant ns1 = None)"
proof -
  have h: "\<not> hasattr (Map.empty :: nat namespace) ''tenant''" by (simp add: hasattr_def)
  from clear_current_tenant_idempotent [of "Map.empty :: nat namespace"] h
  have e: "clear_current_tenant (Map.empty :: nat namespace) = Inr Map.empty" by auto
  from clear_current_tenant_idempotent [of "set_current_tenant (Some (7::nat)) Map.empty"]
  have s: "\<exists>ns1. clear_current_tenant (set_current_tenant (Some (7::nat)) Map.empty) = Inr ns1
          \<and> clear_current_tenant ns1 = Inr ns1 \<and> get_current_tenant ns1 = None" by blast
  from h e s show ?thesis by blast
qed

section \<open>Properties of tenant activation and deactivation\<close>

lemma save_is_active_persisted:
  assumes "tenant.pk self = Some i" and "tenants db i = Some row"
  shows "save_is_active self db =
           Inr (db\<lparr>tenants := (tenants db)(i \<mapsto> row\<lparr>tenant.is_active := tenant.is_active self\<rparr>)\<rparr>)"
  using assms by (simp add: save_is_active_def)

lemma deactivate_persisted:
  assumes "tenant.pk self = Some i" and "tenants db i = Some row"
  shows "deactivate self db =
           (self\<lparr>tenant.is_active := False\<rparr>,
            Inr \<lparr>tenants = (tenants db)(i \<mapsto> row\<lparr>tenant.is_active := False\<rparr>),
                 users = (\<lambda>k. case users db k of
                                 None \<Rightarrow> None
                               | Some u \<Rightarrow>
                                   if tenant_id u = Some i
                                   then Some (u\<lparr>user.is_active := False\<rparr>)
                                   else Some u)\<rparr>)"
  using assms
  by (simp add: deactivate_def Let_def save_is_active_def users_update_is_active_def)

lemma activate_persisted:
  assumes "tenant.pk self = Some i" and "tenants db i = Some row"
  shows "activate self db =
           (self\<lparr>tenant.is_active := True\<rparr>,
            Inr \<lparr>tenants = (tenants db)(i \<mapsto> row\<lparr>tenant.is_active := True\<rparr>),
                 users = users db\<rparr>)"
  using assms by (simp add: activate_def Let_def save_is_active_def)

text \<open>
  C9. Deactivating a persisted tenant is one call that returns normally, leaves the
  instance and the tenant's row inactive (the row's other columns as they were), and
  makes every user row of that tenant inactive: each such row is the old row with
  \<open>is_active\<close> false, so after the call no user of the tenant is active.
\<close>

theorem deactivate_cascades_to_users:
  assumes "tenant.pk self = Some i" and "tenants db i = Some row"
  shows "\<exists>self1 db1. deactivate self db = (self1, Inr db1)
           \<and> \<not> tenant.is_active self1
           \<and> tenants db1 i = Some (row\<lparr>tenant.is_active := False\<rparr>)
           \<and> (\<forall>k u. users db k = Some u \<and> tenant_id u = Some i
                  \<longrightarrow> users db1 k = Some (u\<lparr>user.is_active := False\<rparr>))
           \<and> (\<forall>k u. users db1 k = Some u \<and> tenant_id u = Some i \<longrightarrow> \<not> user.is_active u)"
proof -
  let ?us = "\<lambda>k. case users db k of
                   None \<Rightarrow> None
                 | Some u \<Rightarrow>
                     if tenant_id u = Some i
                     then Some (u\<lparr>user.is_active := False\<rparr>)
                     else Some u"
  let ?db1 = "\<lparr>tenants = (tenants db)(i \<mapsto> row\<lparr>tenant.is_active := False\<rparr>), users = ?us\<rparr>"
  have run: "deactivate self db = (self\<lparr>tenant.is_active := False\<rparr>, Inr ?db1)"
    using assms by (rule deactivate_persisted)
  have row: "tenants ?db1 i = Some (row\<lparr>tenant.is_active := False\<rparr>)" by simp
  have upd: "\<forall>k u. users db k = Some u \<and> tenant_id u = Some i
               \<longrightarrow> users ?db1 k = Some (u\<lparr>user.is_active := False\<rparr>)"
    by simp
  have off: "\<forall>k u. users ?db1 k = Some u \<and> tenant_id u = Some i \<longrightarrow> \<not> user.is_active u"
    by (auto split: option.splits if_splits)
  from run row upd off show ?thesis by simp
qed

theorem deactivate_cascades_to_users_witness:
  "tenant.pk lab_one = Some 1 \<and> tenants sample_db 1 = Some lab_one
   \<and> (\<exists>self1 db1. deactivate lab_one sample_db = (self1, Inr db1)
          \<and> \<not> tenant.is_active self1
          \<and> tenants db1 1 = Some (lab_one\<lparr>tenant.is_active := False\<rparr>)
          \<and> users db1 42 = Some (ada\<lparr>user.is_active := False\<rparr>)
          \<and> users db1 43 = Some (bob\<lparr>user.is_active := False\<rparr>))"
proof -
  have p: "tenant.pk lab_one = Some 1" by (simp add: lab_one_def)
  have r: "tenants sample_db 1 = Some lab_one" by (simp add: sample_db_def)
  have a: "users sample_db 42 = Some ada \<and> tenant_id ada = Some 1"
    by (simp add: sample_db_def ada_def)
  have b: "users sample_db 43 = Some bob \<and> tenant_id bob = Some 1"
    by (simp add: sample_db_def bob_def ada_def)
  from deactivate_cascades_to_users [OF p r] a b p r show ?thesis by blast
qed

text \<open>
  C10. Activating a persisted tenant returns normally and writes one thing, the
  \<open>is_active\<close> column of that tenant's row: the user table after the call is the user
  table before it and every other tenant row is untouched. So when a tenant is
  deactivated and then activated again, the tenant is active while each of its users is
  still the row the cascade left, inactive.
\<close>

theorem activate_leaves_users_unchanged:
  assumes "tenant.pk self = Some i" and "tenants db i = Some row"
  shows "(\<exists>self1 db1. activate self db = (self1, Inr db1)
           \<and> tenant.is_active self1
           \<and> tenants db1 = (tenants db)(i \<mapsto> row\<lparr>tenant.is_active := True\<rparr>)
           \<and> users db1 = users db)
       \<and> (\<exists>self1 db1 self2 db2.
             deactivate self db = (self1, Inr db1)
           \<and> activate self1 db1 = (self2, Inr db2)
           \<and> tenant.is_active self2
           \<and> tenants db2 i = Some (row\<lparr>tenant.is_active := True\<rparr>)
           \<and> users db2 = users db1
           \<and> (\<forall>k u. users db k = Some u \<and> tenant_id u = Some i
                  \<longrightarrow> users db2 k = Some (u\<lparr>user.is_active := False\<rparr>)))"
proof -
  have once: "\<exists>self1 db1. activate self db = (self1, Inr db1)
           \<and> tenant.is_active self1
           \<and> tenants db1 = (tenants db)(i \<mapsto> row\<lparr>tenant.is_active := True\<rparr>)
           \<and> users db1 = users db"
    using assms by (simp add: activate_persisted)
  let ?self1 = "self\<lparr>tenant.is_active := False\<rparr>"
  let ?row1 = "row\<lparr>tenant.is_active := False\<rparr>"
  let ?us = "\<lambda>k. case users db k of
                   None \<Rightarrow> None
                 | Some u \<Rightarrow>
                     if tenant_id u = Some i
                     then Some (u\<lparr>user.is_active := False\<rparr>)
                     else Some u"
  let ?db1 = "\<lparr>tenants = (tenants db)(i \<mapsto> ?row1), users = ?us\<rparr>"
  have d: "deactivate self db = (?self1, Inr ?db1)"
    using assms by (rule deactivate_persisted)
  have p1: "tenant.pk ?self1 = Some i" using assms(1) by simp
  have r1: "tenants ?db1 i = Some ?row1" by simp
  have a: "activate ?self1 ?db1 =
             (?self1\<lparr>tenant.is_active := True\<rparr>,
              Inr \<lparr>tenants = (tenants ?db1)(i \<mapsto> ?row1\<lparr>tenant.is_active := True\<rparr>),
                   users = users ?db1\<rparr>)"
    using p1 r1 by (rule activate_persisted)
  from d a have again: "\<exists>self1 db1 self2 db2.
             deactivate self db = (self1, Inr db1)
           \<and> activate self1 db1 = (self2, Inr db2)
           \<and> tenant.is_active self2
           \<and> tenants db2 i = Some (row\<lparr>tenant.is_active := True\<rparr>)
           \<and> users db2 = users db1
           \<and> (\<forall>k u. users db k = Some u \<and> tenant_id u = Some i
                  \<longrightarrow> users db2 k = Some (u\<lparr>user.is_active := False\<rparr>))"
    by simp
  from once again show ?thesis by (rule conjI)
qed

theorem activate_leaves_users_unchanged_witness:
  "tenant.pk lab_one = Some 1 \<and> tenants sample_db 1 = Some lab_one
   \<and> (\<exists>self1 db1. activate lab_one sample_db = (self1, Inr db1)
          \<and> users db1 = users sample_db)
   \<and> (\<exists>self1 db1 self2 db2.
          deactivate lab_one sample_db = (self1, Inr db1)
        \<and> activate self1 db1 = (self2, Inr db2)
        \<and> tenant.is_active self2
        \<and> tenants db2 1 = Some (lab_one\<lparr>tenant.is_active := True\<rparr>)
        \<and> users db2 42 = Some (ada\<lparr>user.is_active := False\<rparr>))"
proof -
  have p: "tenant.pk lab_one = Some 1" by (simp add: lab_one_def)
  have r: "tenants sample_db 1 = Some lab_one" by (simp add: sample_db_def)
  have a: "users sample_db 42 = Some ada \<and> tenant_id ada = Some 1"
    by (simp add: sample_db_def ada_def)
  from activate_leaves_users_unchanged [OF p r] a p r show ?thesis by blast
qed

section \<open>Properties of request authentication\<close>

lemma split_space_not_Nil: "split_space s \<noteq> []"
  by (induction s) (auto split: list.splits)

lemma startswith_append: "startswith s p \<Longrightarrow> \<exists>r. s = p @ r"
  unfolding startswith_def by (metis append_take_drop_id)

lemma split_space_Bearer:
  assumes "startswith h ''Bearer ''"
  shows "\<exists>token rest. split_space h = ''Bearer'' # token # rest"
proof -
  from assms obtain r where h: "h = ''Bearer '' @ r"
    using startswith_append by blast
  obtain w ws where w: "split_space r = w # ws"
    using split_space_not_Nil [of r] by (cases "split_space r") auto
  have "split_space (''Bearer '' @ r) = ''Bearer'' # w # ws"
    using w by simp
  with h show ?thesis by blast
qed

lemma token_validation_logs: "snd (token_validation e token calls) = calls @ [token]"
  by (simp add: token_validation_def split: sum.splits)

lemmas sample_simps =
  sample_env_def sample_env_off_def sample_validator_def sample_db_def plain_request_def
  bearer_request_def authorization_header_def falsy_def startswith_def idle_def
  on_namespace_def

text \<open>
  C6. When the header the strategy goes on with (\<open>Authorization\<close>, or the fallback
  when that is missing or empty) is missing, empty, or does not start with \<open>Bearer \<close>,
  the strategy raises \<open>CustomAuthenticationFailed\<close>, the request is as it was, and the
  list of validator invocations is as it was: \<open>UntypedToken\<close> was not called.
\<close>

theorem authenticate_rejects_malformed_header:
  assumes "falsy (authorization_header req)
         \<or> (\<exists>h. authorization_header req = Some h \<and> \<not> startswith h ''Bearer '')"
  shows "JwtAuthenticationStrategy_authenticate e req calls =
           (Inl (CustomAuthenticationFailed ''Authorization Details is missing or invalid''), req, calls)"
  using assms
  by (auto simp: JwtAuthenticationStrategy_authenticate_def falsy_def split: option.splits)

theorem authenticate_rejects_malformed_header_witness:
  "falsy (authorization_header (plain_request ''/api/v1/patients/''))
   \<and> JwtAuthenticationStrategy_authenticate sample_env (plain_request ''/api/v1/patients/'') [] =
       (Inl (CustomAuthenticationFailed ''Authorization Details is missing or invalid''),
        plain_request ''/api/v1/patients/'', [])
   \<and> falsy (authorization_header
         ((plain_request ''/api/v1/patients/'')\<lparr>headers := [''Authorization'' \<mapsto> []]\<rparr>))
   \<and> JwtAuthenticationStrategy_authenticate sample_env
         ((plain_request ''/api/v1/patients/'')\<lparr>headers := [''Authorization'' \<mapsto> []]\<rparr>) [] =
       (Inl (CustomAuthenticationFailed ''Authorization Details is missing or invalid''),
        (plain_request ''/api/v1/patients/'')\<lparr>headers := [''Authorization'' \<mapsto> []]\<rparr>, [])
   \<and> authorization_header
         ((plain_request ''/api/v1/patients/'')\<lparr>headers := [''Authorization'' \<mapsto> ''Basic YWRh'']\<rparr>)
       = Some ''Basic YWRh''
   \<and> \<not> startswith ''Basic YWRh'' ''Bearer ''
   \<and> JwtAuthenticationStrategy_authenticate sample_env
         ((plain_request ''/api/v1/patients/'')\<lparr>headers := [''Authorization'' \<mapsto> ''Basic YWRh'']\<rparr>) [] =
       (Inl (CustomAuthenticationFailed ''Authorization Details is missing or invalid''),
        (plain_request ''/api/v1/patients/'')\<lparr>headers := [''Authorization'' \<mapsto> ''Basic YWRh'']\<rparr>, [])"
proof -
  let ?r1 = "plain_request ''/api/v1/patients/''"
  let ?r2 = "(plain_request ''/api/v1/patients/'')\<lparr>headers := [''Authorization'' \<mapsto> ''Basic YWRh'']\<rparr>"
  let ?r3 = "(plain_request ''/api/v1/patients/'')\<lparr>headers := [''Authorization'' \<mapsto> []]\<rparr>"
  have h1: "falsy (authorization_header ?r1)" by (simp add: sample_simps)
  have h2: "authorization_header ?r2 = Some ''Basic YWRh''" by (simp add: sample_simps)
  have h3: "\<not> startswith ''Basic YWRh'' ''Bearer ''" by (simp add: startswith_def)
  have h4: "falsy (authorization_header ?r3)" by (simp add: sample_simps)
  from h1 have c1: "JwtAuthenticationStrategy_authenticate sample_env ?r1 [] =
       (Inl (CustomAuthenticationFailed ''Authorization Details is missing or invalid''), ?r1, [])"
    using authenticate_rejects_malformed_header [of ?r1 sample_env "[]"] by blast
  from h2 h3 have c2: "JwtAuthenticationStrategy_authenticate sample_env ?r2 [] =
       (Inl (CustomAuthenticationFailed ''Authorization Details is missing or invalid''), ?r2, [])"
    using authenticate_rejects_malformed_header [of ?r2 sample_env "[]"] by blast
  from h4 have c3: "JwtAuthenticationStrategy_authenticate sample_env ?r3 [] =
       (Inl (CustomAuthenticationFailed ''Authorization Details is missing or invalid''), ?r3, [])"
    using authenticate_rejects_malformed_header [of ?r3 sample_env "[]"] by blast
  from h1 c1 h4 c3 h2 h3 c2 show ?thesis by blast
qed

text \<open>
  The list does record invocations: with a well-formed header the validator is called
  once, on the word after \<open>Bearer\<close>.
\<close>

lemma authenticate_invokes_validator:
  assumes "authorization_header req = Some h" and "startswith h ''Bearer ''"
    and "split_space h = b # token # rest"
  shows "snd (snd (JwtAuthenticationStrategy_authenticate e req calls)) = calls @ [token]"
proof -
  from assms(2) have ne: "h \<noteq> []" by (auto simp: startswith_def)
  obtain r c where tv: "token_validation e token calls = (r, c)" by (cases "token_validation e token calls")
  with token_validation_logs [of e token calls] have c: "c = calls @ [token]" by simp
  show ?thesis
    using assms ne tv c
    by (auto simp: JwtAuthenticationStrategy_authenticate_def Let_def split: sum.splits option.splits)
qed

text \<open>
  C7. Whenever the token of a well-formed header fails validation, because
  \<open>UntypedToken\<close> raises one of the four exceptions the code catches (expired, malformed
  and badly signed tokens) or because the token object has no \<open>user_id\<close> claim, the
  strategy raises the one exception \<open>CustomAuthenticationFailed\<close> with the one message
  \<open>Token expired or Invalid\<close>. The outcome is the same value for every such cause, so
  the causes cannot be told apart from it.
\<close>

theorem invalid_tokens_fail_alike:
  assumes "authorization_header req = Some h" and "startswith h ''Bearer ''"
    and "split_space h = b # token # rest"
    and "(\<exists>x. UntypedToken e token = Inl x
              \<and> x \<in> {InvalidToken, TokenError, ExpiredSignatureError, InvalidTokenError})
         \<or> (\<exists>p. UntypedToken e token = Inr p \<and> payload.user_id p = None)"
  shows "fst (JwtAuthenticationStrategy_authenticate e req calls) =
           Inl (CustomAuthenticationFailed ''Token expired or Invalid'')"
proof -
  from assms(2) have ne: "h \<noteq> []" by (auto simp: startswith_def)
  from assms(4) show ?thesis
  proof
    assume "\<exists>x. UntypedToken e token = Inl x
              \<and> x \<in> {InvalidToken, TokenError, ExpiredSignatureError, InvalidTokenError}"
    then obtain x where x: "UntypedToken e token = Inl x" and c: "caught x"
      by (auto simp: caught_def)
    then have "token_validation e token calls =
                 (Inl (CustomAuthenticationFailed ''Token expired or Invalid''), calls @ [token])"
      by (simp add: token_validation_def)
    with assms(1-3) ne show ?thesis
      by (simp add: JwtAuthenticationStrategy_authenticate_def)
  next
    assume "\<exists>p. UntypedToken e token = Inr p \<and> payload.user_id p = None"
    then obtain p where p: "UntypedToken e token = Inr p" and u: "payload.user_id p = None"
      by blast
    then have "token_validation e token calls = (Inr p, calls @ [token])"
      by (simp add: token_validation_def)
    with assms(1-3) ne u show ?thesis
      by (simp add: JwtAuthenticationStrategy_authenticate_def)
  qed
qed

theorem invalid_tokens_fail_alike_witness:
  "UntypedToken sample_env ''tok-old'' = Inl ExpiredSignatureError
   \<and> UntypedToken sample_env ''e30.e30.'' = Inl TokenError
   \<and> (\<exists>p. UntypedToken sample_env ''tok-anon'' = Inr p \<and> payload.user_id p = None)
   \<and> fst (JwtAuthenticationStrategy_authenticate sample_env (bearer_request ''/api/v1/patients/'' ''tok-old'') [])
       = Inl (CustomAuthenticationFailed ''Token expired or Invalid'')
   \<and> fst (JwtAuthenticationStrategy_authenticate sample_env (bearer_request ''/api/v1/patients/'' ''e30.e30.'') [])
       = Inl (CustomAuthenticationFailed ''Token expired or Invalid'')
   \<and> fst (JwtAuthenticationStrategy_authenticate sample_env (bearer_request ''/api/v1/patients/'' ''tok-anon'') [])
       = Inl (CustomAuthenticationFailed ''Token expired or Invalid'')"
proof -
  have hdr: "\<And>tok. authorization_header (bearer_request ''/api/v1/patients/'' tok) = Some (''Bearer '' @ tok)"
    by (simp add: sample_simps)
  have pre: "\<And>tok. startswith (''Bearer '' @ tok) ''Bearer ''" by (simp add: startswith_def)
  have s1: "split_space (''Bearer '' @ ''tok-old'') = ''Bearer'' # ''tok-old'' # []" by simp
  have s2: "split_space (''Bearer '' @ ''e30.e30.'') = ''Bearer'' # ''e30.e30.'' # []" by simp
  have s3: "split_space (''Bearer '' @ ''tok-anon'') = ''Bearer'' # ''tok-anon'' # []" by simp
  have v1: "UntypedToken sample_env ''tok-old'' = Inl ExpiredSignatureError"
    by (simp add: sample_simps)
  have v2: "UntypedToken sample_env ''e30.e30.'' = Inl TokenError"
    by (simp add: sample_simps)
  have v3: "\<exists>p. UntypedToken sample_env ''tok-anon'' = Inr p \<and> payload.user_id p = None"
    by (simp add: sample_simps)
  have c1: "fst (JwtAuthenticationStrategy_authenticate sample_env (bearer_request ''/api/v1/patients/'' ''tok-old'') [])
       = Inl (CustomAuthenticationFailed ''Token expired or Invalid'')"
    using invalid_tokens_fail_alike [OF hdr pre s1, of sample_env "[]"] v1 by simp
  have c2: "fst (JwtAuthenticationStrategy_authenticate sample_env (bearer_request ''/api/v1/patients/'' ''e30.e30.'') [])
       = Inl (CustomAuthenticationFailed ''Token expired or Invalid'')"
    using invalid_tokens_fail_alike [OF hdr pre s2, of sample_env "[]"] v2 by simp
  have c3: "fst (JwtAuthenticationStrategy_authenticate sample_env (bearer_request ''/api/v1/patients/'' ''tok-anon'') [])
       = Inl (CustomAuthenticationFailed ''Token expired or Invalid'')"
    using invalid_tokens_fail_alike [OF hdr pre s3, of sample_env "[]"] v3 by simp
  from v1 v2 v3 c1 c2 c3 show ?thesis by blast
qed

text \<open>
  A token that validates and names a user with no row: \<open>get_user\<close> raises
  \<open>User.DoesNotExist\<close>, and since the call stands after the \<open>try\<close> block, that is
  the exception that leaves the strategy.
\<close>

lemma authenticate_missing_user:
  assumes "authorization_header req = Some h" and "startswith h ''Bearer ''"
    and "split_space h = b # token # rest"
    and "UntypedToken e token = Inr p" and "truthy e p"
    and "payload.user_id p = Some uid" and "users (DB e) uid = None"
  shows "fst (JwtAuthenticationStrategy_authenticate e req calls) = Inl UserDoesNotExist"
proof -
  from assms(2) have ne: "h \<noteq> []" by (auto simp: startswith_def)
  from assms(4) have "token_validation e token calls = (Inr p, calls @ [token])"
    by (simp add: token_validation_def)
  with assms ne show ?thesis
    by (simp add: JwtAuthenticationStrategy_authenticate_def Let_def get_user_def)
qed

text \<open>
  C3. The request carries the valid token issued to user 99, whose row is gone. The
  strategy does not raise \<open>CustomAuthenticationFailed\<close> with \<open>User not found\<close>: it
  lets \<open>User.DoesNotExist\<close> through, and the exception leaves the middleware's
  \<open>process_request\<close> as well.
\<close>

theorem deleted_user_lookup_escapes:
  "users (DB sample_env) 99 = None
   \<and> UntypedToken sample_env ''tok-gone'' = Inr \<lparr>payload.user_id = Some 99, payload.role = Some ''tenant_user''\<rparr>
   \<and> fst (JwtAuthenticationStrategy_authenticate sample_env
            (bearer_request ''/api/v1/patients/'' ''tok-gone'') []) = Inl UserDoesNotExist
   \<and> fst (JwtAuthenticationStrategy_authenticate sample_env
            (bearer_request ''/api/v1/patients/'' ''tok-gone'') []) \<noteq> Inl (CustomAuthenticationFailed ''User not found'')
   \<and> fst (process_request sample_env (bearer_request ''/api/v1/patients/'' ''tok-gone'') idle)
       = Inl UserDoesNotExist"
proof -
  have u: "users (DB sample_env) 99 = None" by (simp add: sample_simps)
  have v: "UntypedToken sample_env ''tok-gone'' = Inr \<lparr>payload.user_id = Some 99, payload.role = Some ''tenant_user''\<rparr>"
    by (simp add: sample_simps)
  have hdr: "authorization_header (bearer_request ''/api/v1/patients/'' ''tok-gone'') = Some (''Bearer '' @ ''tok-gone'')"
    by (simp add: sample_simps)
  have pre: "startswith (''Bearer '' @ ''tok-gone'') ''Bearer ''" by (simp add: startswith_def)
  have sp: "split_space (''Bearer '' @ ''tok-gone'') = ''Bearer'' # ''tok-gone'' # []" by simp
  have t: "truthy sample_env \<lparr>payload.user_id = Some 99, payload.role = Some ''tenant_user''\<rparr>"
    by (simp add: sample_simps)
  have a: "\<And>calls. fst (JwtAuthenticationStrategy_authenticate sample_env
            (bearer_request ''/api/v1/patients/'' ''tok-gone'') calls) = Inl UserDoesNotExist"
    using authenticate_missing_user [OF hdr pre sp v t _ u] by simp
  have pub: "\<not> list_ex (startswith (path (bearer_request ''/api/v1/patients/'' ''tok-gone''))) (PUBLIC_URL sample_env)"
    by (simp add: sample_simps)
  have exc: "\<not> list_ex (startswith (path (bearer_request ''/api/v1/patients/'' ''tok-gone''))) EXCLUDED_PATHS"
    by (simp add: sample_simps EXCLUDED_PATHS_def)
  obtain r q c where j: "JwtAuthenticationStrategy_authenticate sample_env
            (bearer_request ''/api/v1/patients/'' ''tok-gone'') [] = (r, q, c)"
    by (metis prod_cases3)
  with a [of "[]"] have r: "r = Inl UserDoesNotExist" by simp
  have m: "fst (process_request sample_env (bearer_request ''/api/v1/patients/'' ''tok-gone'') idle)
       = Inl UserDoesNotExist"
    using pub exc j r
    by (simp add: process_request_def clear_current_tenant_def hasattr_def idle_def on_namespace_def
          AuthenticationService_authenticate_def Let_def)
  from u v a [of "[]"] m show ?thesis by simp
qed

section \<open>Properties of the tenant middleware\<close>

lemma process_request_excluded:
  assumes "list_ex (startswith (path req)) EXCLUDED_PATHS"
  shows "process_request e req st =
           (Inr None, req, st\<lparr>thread_locals := (thread_locals st)(''tenant'' := None)\<rparr>)"
  using assms by (simp add: process_request_def clear_current_tenant_eq)

lemma process_request_protected:
  assumes "\<not> list_ex (startswith (path req)) EXCLUDED_PATHS"
    and "AuthenticationService_authenticate e req (validator_calls st) = (r, req1, calls1)"
  shows "process_request e req st =
     (let ns = (thread_locals st)(''tenant'' := None);
          st2 = st\<lparr>thread_locals := ns, validator_calls := calls1\<rparr>
      in case r of
           Inl x \<Rightarrow> (Inl x, req1, st2)
         | Inr None \<Rightarrow> (Inl TypeError, req1, st2)
         | Inr (Some (None, token)) \<Rightarrow>
             (Inr (Some (JsonResponse
                [(''error'', ''Credential Missing''),
                 (''detail'', ''unable to authenticate your account'')]
                HTTP_403_FORBIDDEN)), req1, st2)
         | Inr (Some (Some u, token)) \<Rightarrow>
             (case authenticated_user.tenant u of
                None \<Rightarrow>
                  (Inr (Some (JsonResponse
                     [(''error'', ''No tenant associated with user''),
                      (''detail'', ''Your account is not associated with any organization.'')]
                     HTTP_403_FORBIDDEN)), req1, st2)
              | Some t \<Rightarrow>
                  if \<not> tenant.is_active t
                  then (Inr (Some (JsonResponse
                     [(''error'', ''Tenant inactive''),
                      (''detail'', ''Your organization account has been deactivated.'')]
                     HTTP_403_FORBIDDEN)), req1, st2)
                  else (Inr None, req1\<lparr>request.tenant := Some t\<rparr>,
                        st2\<lparr>thread_locals := set_current_tenant (Some t) ns\<rparr>)))"
  using assms
  by (simp add: process_request_def clear_current_tenant_eq Let_def
           split: sum.splits option.splits prod.splits)

lemma process_request_context:
  "thread_locals (snd (snd (process_request e req st))) = (thread_locals st)(''tenant'' := None)
   \<or> (\<exists>t. thread_locals (snd (snd (process_request e req st))) = (thread_locals st)(''tenant'' \<mapsto> Some t)
          \<and> fst (process_request e req st) = Inr None)"
proof (cases "list_ex (startswith (path req)) EXCLUDED_PATHS")
  case True
  then show ?thesis by (simp add: process_request_excluded)
next
  case False
  obtain r req1 calls1 where a: "AuthenticationService_authenticate e req (validator_calls st) = (r, req1, calls1)"
    by (metis prod_cases3)
  show ?thesis
    unfolding process_request_protected [OF False a]
    by (auto simp: Let_def set_current_tenant_def setattr_def split: sum.splits option.splits prod.splits)
qed

lemma process_request_entry_clear:
  "process_request e req (st\<lparr>thread_locals := (thread_locals st)(''tenant'' := None)\<rparr>)
     = process_request e req st"
  by (simp add: process_request_def clear_current_tenant_eq)

lemma process_response_eq:
  "process_response req resp st = (Inr resp, st\<lparr>thread_locals := (thread_locals st)(''tenant'' := None)\<rparr>)"
  by (simp add: process_response_def clear_current_tenant_eq)

lemma process_exception_eq:
  "process_exception req exc st = (Inr None, st\<lparr>thread_locals := (thread_locals st)(''tenant'' := None)\<rparr>)"
  by (simp add: process_exception_def clear_current_tenant_eq)

lemma MiddlewareMixin_call_context:
  "get_current_tenant (thread_locals (snd (MiddlewareMixin_call e get_response req st))) = None"
proof -
  obtain r req1 st1 where p: "process_request e req st = (r, req1, st1)" by (metis prod_cases3)
  show ?thesis
  proof (cases r)
    case (Inl x)
    with process_request_context [of e req st] p show ?thesis
      by (auto simp: MiddlewareMixin_call_def get_cleared)
  next
    case (Inr ro)
    with p show ?thesis
      by (cases ro)
         (auto simp: MiddlewareMixin_call_def process_response_eq get_cleared split: prod.splits)
  qed
qed

lemma sample_service_no_header:
  "AuthenticationService_authenticate sample_env (plain_request ''/api/v1/patients/'') calls =
     (Inl (CustomAuthenticationFailed ''Authorization Details is missing or invalid''),
      plain_request ''/api/v1/patients/'', calls)"
  by (simp add: AuthenticationService_authenticate_def JwtAuthenticationStrategy_authenticate_def
        sample_simps)

lemma patients_not_excluded:
  "\<not> list_ex (startswith (path (plain_request ''/api/v1/patients/''))) EXCLUDED_PATHS"
  by (simp add: plain_request_def EXCLUDED_PATHS_def startswith_def)

lemma admin_excluded:
  "list_ex (startswith (path (plain_request ''/admin/login/''))) EXCLUDED_PATHS"
  by (simp add: plain_request_def EXCLUDED_PATHS_def startswith_def)

text \<open>
  C2. \<open>process_request\<close> clears the context before it does anything else: its
  outcome is the outcome on the cleared context, so nothing of the prior tenant enters
  it; on an excluded path, and whenever it does not let the request through (it returns
  a response or an exception leaves it), the context it leaves is the cleared one.
  \<open>process_response\<close> and \<open>process_exception\<close> return normally and leave the
  cleared context, in which no tenant is read. After the middleware's \<open>__call__\<close>, for
  every request, every prior state and every downstream behaviour, no tenant is read.
\<close>

theorem context_cleared_on_entry_and_exit:
  "process_request e req (st\<lparr>thread_locals := (thread_locals st)(''tenant'' := None)\<rparr>)
     = process_request e req st
   \<and> (list_ex (startswith (path req)) EXCLUDED_PATHS \<longrightarrow>
        thread_locals (snd (snd (process_request e req st))) = (thread_locals st)(''tenant'' := None))
   \<and> (fst (process_request e req st) \<noteq> Inr None \<longrightarrow>
        thread_locals (snd (snd (process_request e req st))) = (thread_locals st)(''tenant'' := None))
   \<and> process_response req resp st =
        (Inr resp, st\<lparr>thread_locals := (thread_locals st)(''tenant'' := None)\<rparr>)
   \<and> process_exception req exc st =
        (Inr None, st\<lparr>thread_locals := (thread_locals st)(''tenant'' := None)\<rparr>)
   \<and> get_current_tenant ((thread_locals st)(''tenant'' := None)) = None
   \<and> get_current_tenant (thread_locals (snd (MiddlewareMixin_call e get_response req st))) = None"
proof -
  have a: "process_request e req (st\<lparr>thread_locals := (thread_locals st)(''tenant'' := None)\<rparr>)
     = process_request e req st"
    by (rule process_request_entry_clear)
  have b: "list_ex (startswith (path req)) EXCLUDED_PATHS \<longrightarrow>
        thread_locals (snd (snd (process_request e req st))) = (thread_locals st)(''tenant'' := None)"
    by (simp add: process_request_excluded)
  have c: "fst (process_request e req st) \<noteq> Inr None \<longrightarrow>
        thread_locals (snd (snd (process_request e req st))) = (thread_locals st)(''tenant'' := None)"
    using process_request_context [of e req st] by blast
  have d: "process_response req resp st =
        (Inr resp, st\<lparr>thread_locals := (thread_locals st)(''tenant'' := None)\<rparr>)"
    by (rule process_response_eq)
  have f: "process_exception req exc st =
        (Inr None, st\<lparr>thread_locals := (thread_locals st)(''tenant'' := None)\<rparr>)"
    by (rule process_exception_eq)
  have g: "get_current_tenant ((thread_locals st)(''tenant'' := None)) = None"
    by (rule get_cleared)
  have h: "get_current_tenant (thread_locals (snd (MiddlewareMixin_call e get_response req st))) = None"
    by (rule MiddlewareMixin_call_context)
  from a b c d f g h show ?thesis by blast
qed

theorem context_cleared_on_entry_and_exit_witness:
  "get_current_tenant (thread_locals stale) = Some lab_two
   \<and> list_ex (startswith (path (plain_request ''/admin/login/''))) EXCLUDED_PATHS
   \<and> get_current_tenant
        (thread_locals (snd (snd (process_request sample_env (plain_request ''/admin/login/'') stale)))) = None
   \<and> fst (process_request sample_env (plain_request ''/api/v1/patients/'') stale) \<noteq> Inr None
   \<and> get_current_tenant
        (thread_locals (snd (snd (process_request sample_env (plain_request ''/api/v1/patients/'') stale)))) = None"
proof -
  have s: "get_current_tenant (thread_locals stale) = Some lab_two"
    by (simp add: stale_def on_namespace_def get_current_tenant_def getattr_default_def)
  have n: "fst (process_request sample_env (plain_request ''/api/v1/patients/'') stale) \<noteq> Inr None"
    using process_request_protected [OF patients_not_excluded sample_service_no_header]
    by (simp add: Let_def)
  from context_cleared_on_entry_and_exit
         [of sample_env "plain_request ''/admin/login/''" stale "Downstream 200 ''ok''" ValueError
            "\<lambda>r ns. (Downstream 200 ''ok'', ns)"]
       admin_excluded
  have c1: "get_current_tenant
        (thread_locals (snd (snd (process_request sample_env (plain_request ''/admin/login/'') stale)))) = None"
    by simp
  from context_cleared_on_entry_and_exit
         [of sample_env "plain_request ''/api/v1/patients/''" stale "Downstream 200 ''ok''" ValueError
            "\<lambda>r ns. (Downstream 200 ''ok'', ns)"]
       n
  have c2: "get_current_tenant
        (thread_locals (snd (snd (process_request sample_env (plain_request ''/api/v1/patients/'') stale)))) = None"
    by simp
  from s admin_excluded c1 n c2 show ?thesis by blast
qed

text \<open>
  An exception of the authentication service leaves \<open>process_request\<close> as it is, and
  the strategy never returns a pair whose user is \<open>None\<close>.
\<close>

lemma process_request_reraises:
  assumes "\<not> list_ex (startswith (path req)) EXCLUDED_PATHS"
    and "fst (AuthenticationService_authenticate e req (validator_calls st)) = Inl x"
  shows "fst (process_request e req st) = Inl x"
proof -
  obtain r req1 calls1 where a: "AuthenticationService_authenticate e req (validator_calls st) = (r, req1, calls1)"
    by (metis prod_cases3)
  with assms(2) have "r = Inl x" by simp
  with process_request_protected [OF assms(1) a] show ?thesis by (simp add: Let_def)
qed

lemma strategy_returns_a_user:
  "fst (JwtAuthenticationStrategy_authenticate e req calls) \<noteq> Inr (None, token)"
  by (simp add: JwtAuthenticationStrategy_authenticate_def Let_def
        split: option.splits list.splits sum.splits prod.splits)

text \<open>
  C4. A request to the protected path \<open>/api/v1/patients/\<close> without an
  \<open>Authorization\<close> header: the authentication service raises
  \<open>CustomAuthenticationFailed\<close>, and \<open>process_request\<close> does not return the 403
  response \<open>Credential Missing\<close>; the exception leaves \<open>process_request\<close> and the
  middleware's \<open>__call__\<close>.
\<close>

theorem authentication_failure_escapes_middleware:
  "\<not> list_ex (startswith (path (plain_request ''/api/v1/patients/''))) EXCLUDED_PATHS
   \<and> fst (AuthenticationService_authenticate sample_env (plain_request ''/api/v1/patients/'') [])
       = Inl (CustomAuthenticationFailed ''Authorization Details is missing or invalid'')
   \<and> process_request sample_env (plain_request ''/api/v1/patients/'') idle
       = (Inl (CustomAuthenticationFailed ''Authorization Details is missing or invalid''),
          plain_request ''/api/v1/patients/'', idle)
   \<and> MiddlewareMixin_call sample_env (\<lambda>r ns. (Downstream 200 ''ok'', ns))
         (plain_request ''/api/v1/patients/'') idle
       = (Inl (CustomAuthenticationFailed ''Authorization Details is missing or invalid''), idle)"
proof -
  have c: "validator_calls idle = []" by (simp add: idle_def on_namespace_def)
  have p: "process_request sample_env (plain_request ''/api/v1/patients/'') idle
       = (Inl (CustomAuthenticationFailed ''Authorization Details is missing or invalid''),
          plain_request ''/api/v1/patients/'', idle)"
    using process_request_protected [OF patients_not_excluded sample_service_no_header, of idle]
    by (simp add: Let_def idle_def on_namespace_def)
  then have m: "MiddlewareMixin_call sample_env (\<lambda>r ns. (Downstream 200 ''ok'', ns))
         (plain_request ''/api/v1/patients/'') idle
       = (Inl (CustomAuthenticationFailed ''Authorization Details is missing or invalid''), idle)"
    by (simp add: MiddlewareMixin_call_def)
  from patients_not_excluded sample_service_no_header [of "[]"] p m show ?thesis by simp
qed

lemma sample_service_cy_off:
  "AuthenticationService_authenticate sample_env_off (bearer_request ''/api/v1/patients/'' ''tok-cy'') []
     = (Inr (Some (Some \<lparr>ident = 44, authenticated_user.role = Some ''tenant_user'',
                         authenticated_user.pk = 44, is_authenticated = True,
                         authenticated_user.tenant = Some (lab_two\<lparr>tenant.is_active := False\<rparr>),
                         authenticated_user.is_staff = False\<rparr>, ''tok-cy'')),
        (bearer_request ''/api/v1/patients/'' ''tok-cy'')\<lparr>request.user_id := Some 44,
           request.role := Some ''tenant_user''\<rparr>,
        [''tok-cy''])"
  by (simp add: AuthenticationService_authenticate_def JwtAuthenticationStrategy_authenticate_def
        token_validation_def get_user_def AuthenticatedUser_def user_tenant_def Let_def
        sample_simps cy_def ada_def)

text \<open>
  C5. On a path that is not excluded, when the authentication service returns an
  identity whose tenant is inactive, \<open>process_request\<close> returns the 403 response
  \<open>Tenant inactive\<close> and leaves the context cleared at entry with nothing published;
  the middleware's \<open>__call__\<close> returns that response without calling the downstream
  handler, and no tenant is read from the context afterwards.
\<close>

theorem inactive_tenant_is_refused:
  assumes "\<not> list_ex (startswith (path req)) EXCLUDED_PATHS"
    and "AuthenticationService_authenticate e req (validator_calls st)
           = (Inr (Some (Some u, token)), req1, calls1)"
    and "authenticated_user.tenant u = Some t"
    and "\<not> tenant.is_active t"
  shows "process_request e req st =
           (Inr (Some (JsonResponse
              [(''error'', ''Tenant inactive''),
               (''detail'', ''Your organization account has been deactivated.'')] 403)),
            req1,
            st\<lparr>thread_locals := (thread_locals st)(''tenant'' := None), validator_calls := calls1\<rparr>)
       \<and> MiddlewareMixin_call e get_response req st =
           (Inr (JsonResponse
              [(''error'', ''Tenant inactive''),
               (''detail'', ''Your organization account has been deactivated.'')] 403),
            st\<lparr>thread_locals := (thread_locals st)(''tenant'' := None), validator_calls := calls1\<rparr>)
       \<and> handler_calls (snd (MiddlewareMixin_call e get_response req st)) = handler_calls st
       \<and> get_current_tenant (thread_locals (snd (snd (process_request e req st)))) = None
       \<and> get_current_tenant (thread_locals (snd (MiddlewareMixin_call e get_response req st))) = None"
proof -
  let ?resp = "JsonResponse
              [(''error'', ''Tenant inactive''),
               (''detail'', ''Your organization account has been deactivated.'')] 403"
  let ?st2 = "st\<lparr>thread_locals := (thread_locals st)(''tenant'' := None), validator_calls := calls1\<rparr>"
  have p: "process_request e req st = (Inr (Some ?resp), req1, ?st2)"
    using process_request_protected [OF assms(1,2)] assms(3,4)
    by (simp add: Let_def HTTP_403_FORBIDDEN_def)
  have m: "MiddlewareMixin_call e get_response req st = (Inr ?resp, ?st2)"
    using p by (simp add: MiddlewareMixin_call_def process_response_eq)
  from p m show ?thesis by (simp add: get_cleared)
qed

theorem inactive_tenant_is_refused_witness:
  "\<not> list_ex (startswith (path (bearer_request ''/api/v1/patients/'' ''tok-cy''))) EXCLUDED_PATHS
   \<and> \<not> tenant.is_active (lab_two\<lparr>tenant.is_active := False\<rparr>)
   \<and> fst (process_request sample_env_off (bearer_request ''/api/v1/patients/'' ''tok-cy'') idle) =
        Inr (Some (JsonResponse
              [(''error'', ''Tenant inactive''),
               (''detail'', ''Your organization account has been deactivated.'')] 403))
   \<and> handler_calls (snd (MiddlewareMixin_call sample_env_off (\<lambda>r ns. (Downstream 200 ''ok'', ns))
        (bearer_request ''/api/v1/patients/'' ''tok-cy'') idle)) = 0
   \<and> get_current_tenant (thread_locals (snd (MiddlewareMixin_call sample_env_off
        (\<lambda>r ns. (Downstream 200 ''ok'', ns)) (bearer_request ''/api/v1/patients/'' ''tok-cy'') idle))) = None"
proof -
  have x: "\<not> list_ex (startswith (path (bearer_request ''/api/v1/patients/'' ''tok-cy''))) EXCLUDED_PATHS"
    by (simp add: bearer_request_def plain_request_def EXCLUDED_PATHS_def startswith_def)
  have c: "validator_calls idle = []" and h: "handler_calls idle = 0"
    by (simp_all add: idle_def on_namespace_def)
  have a: "AuthenticationService_authenticate sample_env_off
             (bearer_request ''/api/v1/patients/'' ''tok-cy'') (validator_calls idle)
     = (Inr (Some (Some \<lparr>ident = 44, authenticated_user.role = Some ''tenant_user'',
                         authenticated_user.pk = 44, is_authenticated = True,
                         authenticated_user.tenant = Some (lab_two\<lparr>tenant.is_active := False\<rparr>),
                         authenticated_user.is_staff = False\<rparr>, ''tok-cy'')),
        (bearer_request ''/api/v1/patients/'' ''tok-cy'')\<lparr>request.user_id := Some 44,
           request.role := Some ''tenant_user''\<rparr>,
        [''tok-cy''])"
    using sample_service_cy_off c by simp
  have t: "authenticated_user.tenant \<lparr>ident = 44, authenticated_user.role = Some ''tenant_user'',
                         authenticated_user.pk = 44, is_authenticated = True,
                         authenticated_user.tenant = Some (lab_two\<lparr>tenant.is_active := False\<rparr>),
                         authenticated_user.is_staff = False\<rparr>
            = Some (lab_two\<lparr>tenant.is_active := False\<rparr>)" by simp
  have i: "\<not> tenant.is_active (lab_two\<lparr>tenant.is_active := False\<rparr>)" by simp
  from inactive_tenant_is_refused [OF x a t i, of "\<lambda>r ns. (Downstream 200 ''ok'', ns)"] x i h
  show ?thesis by (simp add: get_cleared)
qed

section \<open>Properties of the context under interleaving\<close>

text \<open>
  What a thread reads in a schedule is what it reads running its own steps alone: the
  steps of other threads do not enter.
\<close>

lemma schedule_is_local:
  "map snd (filter (\<lambda>p. fst p = t) (schedule e sched store)) = alone e (steps_of t sched) (store t)"
proof (induction sched arbitrary: store)
  case Nil
  show ?case by (simp add: steps_of_def)
next
  case (Cons p sched)
  obtain u a where p: "p = (u, a)" by (cases p)
  show ?case
  proof (cases "u = t")
    case True
    with p Cons.IH show ?thesis
      by (cases a) (simp_all add: steps_of_def)
  next
    case False
    with p Cons.IH show ?thesis
      by (cases a) (simp_all add: steps_of_def)
  qed
qed

lemma published_independent:
  assumes "validator_calls st = validator_calls st'"
  shows "get_current_tenant (thread_locals (snd (snd (process_request e req st))))
       = get_current_tenant (thread_locals (snd (snd (process_request e req st'))))"
proof (cases "list_ex (startswith (path req)) EXCLUDED_PATHS")
  case True
  then show ?thesis by (simp add: process_request_excluded get_cleared)
next
  case False
  obtain r req1 calls1 where a: "AuthenticationService_authenticate e req (validator_calls st) = (r, req1, calls1)"
    by (metis prod_cases3)
  with assms have a': "AuthenticationService_authenticate e req (validator_calls st') = (r, req1, calls1)"
    by simp
  show ?thesis
    unfolding process_request_protected [OF False a] process_request_protected [OF False a']
    by (simp add: Let_def get_cleared get_published set_current_tenant_def setattr_def
          split: sum.splits option.splits prod.splits)
qed

lemma enter_independent:
  "get_current_tenant (run_hook e (Enter r) ns) = get_current_tenant (run_hook e (Enter r) ns')"
proof -
  have "validator_calls (on_namespace ns) = validator_calls (on_namespace ns')"
    by (simp add: on_namespace_def)
  from published_independent [OF this] show ?thesis by (simp add: run_hook_def)
qed

lemma other_hooks:
  assumes "\<not> is_Enter a"
  shows "get_current_tenant (run_hook e a ns) = None
       \<or> get_current_tenant (run_hook e a ns) = get_current_tenant ns"
  using assms
  by (cases a)
     (simp_all add: is_Enter_def run_hook_def process_response_eq process_exception_eq get_cleared)

lemma alone_bounded:
  assumes "\<not> list_ex is_Enter acts"
    and "get_current_tenant ns = None \<or> get_current_tenant ns = v"
  shows "\<forall>x \<in> set (alone e acts ns). x = None \<or> x = v"
  using assms
proof (induction acts arbitrary: ns)
  case Nil
  show ?case by simp
next
  case (Cons a acts)
  from Cons.prems(1) have na: "\<not> is_Enter a" and nr: "\<not> list_ex is_Enter acts" by simp_all
  show ?case
  proof (cases "a = Read")
    case True
    with Cons.IH [OF nr Cons.prems(2)] Cons.prems(2) show ?thesis by auto
  next
    case False
    from other_hooks [OF na, of e ns] Cons.prems(2)
    have "get_current_tenant (run_hook e a ns) = None \<or> get_current_tenant (run_hook e a ns) = v"
      by auto
    from Cons.IH [OF nr this] False show ?thesis by (cases a) simp_all
  qed
qed

lemma request_observes_own_tenant:
  assumes "steps_of t sched = Enter r # acts" and "\<not> list_ex is_Enter acts"
    and "(t, v) \<in> set (schedule e sched store)"
  shows "v = None \<or> v = get_current_tenant (run_hook e (Enter r) Map.empty)"
proof -
  from assms(3) have "v \<in> set (map snd (filter (\<lambda>p. fst p = t) (schedule e sched store)))"
    by force
  then have "v \<in> set (alone e (Enter r # acts) (store t))"
    using assms(1) by (simp add: schedule_is_local)
  then have v: "v \<in> set (alone e acts (run_hook e (Enter r) (store t)))" by simp
  have "get_current_tenant (run_hook e (Enter r) (store t))
          = get_current_tenant (run_hook e (Enter r) Map.empty)"
    by (rule enter_independent)
  then have "\<forall>x \<in> set (alone e acts (run_hook e (Enter r) (store t))).
               x = None \<or> x = get_current_tenant (run_hook e (Enter r) Map.empty)"
    using alone_bounded [OF assms(2), of "run_hook e (Enter r) (store t)"] by blast
  with v show ?thesis by blast
qed

lemma sample_enter_ada:
  "run_hook sample_env (Enter ada_request) ns = ns(''tenant'' \<mapsto> Some lab_one)"
  by (simp add: run_hook_def ada_request_def process_request_def clear_current_tenant_eq
        EXCLUDED_PATHS_def
        AuthenticationService_authenticate_def JwtAuthenticationStrategy_authenticate_def
        token_validation_def get_user_def AuthenticatedUser_def user_tenant_def Let_def
        set_current_tenant_def setattr_def
        sample_simps ada_def lab_one_def)

lemma sample_enter_cy:
  "run_hook sample_env (Enter cy_request) ns = ns(''tenant'' \<mapsto> Some lab_two)"
  by (simp add: run_hook_def cy_request_def process_request_def clear_current_tenant_eq
        EXCLUDED_PATHS_def
        AuthenticationService_authenticate_def JwtAuthenticationStrategy_authenticate_def
        token_validation_def get_user_def AuthenticatedUser_def user_tenant_def Let_def
        set_current_tenant_def setattr_def
        sample_simps cy_def ada_def lab_two_def lab_one_def)

lemma sample_leave: "run_hook e (Leave r resp) ns = ns(''tenant'' := None)"
  by (simp add: run_hook_def process_response_eq on_namespace_def)

lemma sample_fault: "run_hook e (Fault r x) ns = ns(''tenant'' := None)"
  by (simp add: run_hook_def process_exception_eq on_namespace_def)

text \<open>
  C1. Two threads \<open>t1\<close> and \<open>t2\<close> each serve one request, for which the middleware
  publishes the distinct tenants \<open>A\<close> and \<open>B\<close>. In every schedule that interleaves
  their steps in any order (with any steps of other threads, from any prior contents of
  the thread-local object), no call of \<open>get_current_tenant\<close> on \<open>t1\<close> returns
  \<open>B\<close> and none on \<open>t2\<close> returns \<open>A\<close>.
\<close>

theorem tenant_context_is_isolated:
  assumes "t1 \<noteq> t2" and "A \<noteq> B"
    and "steps_of t1 sched = Enter r1 # acts1" and "\<not> list_ex is_Enter acts1"
    and "steps_of t2 sched = Enter r2 # acts2" and "\<not> list_ex is_Enter acts2"
    and "get_current_tenant (run_hook e (Enter r1) Map.empty) = Some A"
    and "get_current_tenant (run_hook e (Enter r2) Map.empty) = Some B"
  shows "\<forall>(t, v) \<in> set (schedule e sched store).
           (t = t1 \<longrightarrow> v \<noteq> Some B) \<and> (t = t2 \<longrightarrow> v \<noteq> Some A)"
proof -
  have "(t = t1 \<longrightarrow> v \<noteq> Some B) \<and> (t = t2 \<longrightarrow> v \<noteq> Some A)"
    if m: "(t, v) \<in> set (schedule e sched store)" for t v
  proof (intro conjI impI)
    assume "t = t1"
    with m request_observes_own_tenant [OF assms(3,4), of v e store] assms(7)
    have "v = None \<or> v = Some A" by simp
    with assms(2) show "v \<noteq> Some B" by auto
  next
    assume "t = t2"
    with m request_observes_own_tenant [OF assms(5,6), of v e store] assms(8)
    have "v = None \<or> v = Some B" by simp
    with assms(2) show "v \<noteq> Some A" by auto
  qed
  then show ?thesis by auto
qed

theorem tenant_context_is_isolated_witness:
  "(1::nat) \<noteq> 2 \<and> lab_one \<noteq> lab_two
   \<and> steps_of 1 sample_schedule
        = Enter ada_request # [Read, Leave ada_request (Downstream 200 ''ok''), Read]
   \<and> \<not> list_ex is_Enter [Read, Leave ada_request (Downstream 200 ''ok''), Read]
   \<and> steps_of 2 sample_schedule
        = Enter cy_request # [Read, Read, Fault cy_request ValueError, Read]
   \<and> \<not> list_ex is_Enter [Read, Read, Fault cy_request ValueError, Read]
   \<and> get_current_tenant (run_hook sample_env (Enter ada_request) Map.empty) = Some lab_one
   \<and> get_current_tenant (run_hook sample_env (Enter cy_request) Map.empty) = Some lab_two
   \<and> get_current_tenant (sample_store 1) = Some lab_two
   \<and> schedule sample_env sample_schedule sample_store
        = [(1, Some lab_one), (2, Some lab_two), (2, Some lab_two), (1, None), (2, None)]
   \<and> (1, Some lab_two) \<notin> set (schedule sample_env sample_schedule sample_store)
   \<and> (2, Some lab_one) \<notin> set (schedule sample_env sample_schedule sample_store)"
proof -
  have d: "(1::nat) \<noteq> 2" by simp
  have ab: "lab_one \<noteq> lab_two" by (simp add: lab_two_def lab_one_def)
  have s1: "steps_of 1 sample_schedule
        = Enter ada_request # [Read, Leave ada_request (Downstream 200 ''ok''), Read]"
    by (simp add: steps_of_def sample_schedule_def)
  have n1: "\<not> list_ex is_Enter [Read, Leave ada_request (Downstream 200 ''ok''), Read]"
    by (simp add: is_Enter_def)
  have s2: "steps_of 2 sample_schedule
        = Enter cy_request # [Read, Read, Fault cy_request ValueError, Read]"
    by (simp add: steps_of_def sample_schedule_def)
  have n2: "\<not> list_ex is_Enter [Read, Read, Fault cy_request ValueError, Read]"
    by (simp add: is_Enter_def)
  have p1: "get_current_tenant (run_hook sample_env (Enter ada_request) Map.empty) = Some lab_one"
    by (simp add: sample_enter_ada get_published)
  have p2: "get_current_tenant (run_hook sample_env (Enter cy_request) Map.empty) = Some lab_two"
    by (simp add: sample_enter_cy get_published)
  have st: "get_current_tenant (sample_store 1) = Some lab_two"
    by (simp add: sample_store_def get_published)
  have run: "schedule sample_env sample_schedule sample_store
        = [(1, Some lab_one), (2, Some lab_two), (2, Some lab_two), (1, None), (2, None)]"
    by (simp add: sample_schedule_def sample_store_def sample_enter_ada sample_enter_cy
          sample_leave sample_fault get_published get_cleared
          get_current_tenant_def getattr_default_def)
  note iso = tenant_context_is_isolated [OF d ab s1 n1 s2 n2 p1 p2, of sample_store]
  from iso have o1: "(1, Some lab_two) \<notin> set (schedule sample_env sample_schedule sample_store)"
    by blast
  from iso have o2: "(2, Some lab_one) \<notin> set (schedule sample_env sample_schedule sample_store)"
    by blast
  from d ab s1 n1 s2 n2 p1 p2 st run o1 o2 show ?thesis by blast
qed

end
